theory Spec2Isabelle
  imports Main "HOL-Library.List_Lexorder" "HOL-Library.Sublist" "HOL-Library.AList"
begin

section \<open>Strings\<close>

text \<open>
  A Python \<open>str\<close> is a sequence of Unicode code points; it is modelled as a list of
  natural numbers. \<open>py\<close> turns an ASCII literal into such a string. Encoding a string
  as UTF-8 is taken to succeed always (lone surrogates are not modelled).
\<close>

type_synonym pystr = "nat list"

definition py :: "string \<Rightarrow> pystr" where
  "py s = map of_char s"

abbreviation NL :: nat where
  "NL \<equiv> 10"

text \<open>
  \<open>str.isspace\<close> on one code point: the characters CPython lists as whitespace
  (U+0009..U+000D, U+001C..U+0020, U+0085, U+00A0, U+1680, U+2000..U+200A, U+2028,
  U+2029, U+202F, U+205F, U+3000).
\<close>

definition isspace :: "nat \<Rightarrow> bool" where
  "isspace c \<longleftrightarrow>
     (9 \<le> c \<and> c \<le> 13) \<or> (28 \<le> c \<and> c \<le> 32) \<or> c = 133 \<or> c = 160 \<or> c = 5760 \<or>
     (8192 \<le> c \<and> c \<le> 8202) \<or> c = 8232 \<or> c = 8233 \<or> c = 8239 \<or> c = 8287 \<or> c = 12288"

text \<open>\<open>s.rstrip()\<close>: drop the longest suffix of whitespace.\<close>

definition rstrip :: "pystr \<Rightarrow> pystr" where
  "rstrip s = rev (dropWhile isspace (rev s))"

text \<open>\<open>sep.join(xs)\<close>.\<close>

fun join :: "pystr \<Rightarrow> pystr list \<Rightarrow> pystr" where
  "join sep [] = []"
| "join sep [x] = x"
| "join sep (x # y # ys) = x @ sep @ join sep (y # ys)"

text \<open>\<open>s.split(c)\<close> for a one-character separator.\<close>

fun split_on :: "nat \<Rightarrow> pystr \<Rightarrow> pystr list" where
  "split_on c [] = [[]]"
| "split_on c (x # xs) =
     (if x = c then [] # split_on c xs
      else (case split_on c xs of [] \<Rightarrow> [[x]] | l # ls \<Rightarrow> (x # l) # ls))"

section \<open>Errors\<close>

datatype error =
    ValueError
  | IndexError
  | FileNotFoundError
  | NotADirectoryError
  | IsADirectoryError
  | FileExistsError
  | UnicodeDecodeError

section \<open>Paths (pathlib, POSIX flavour)\<close>

text \<open>
  A pure path is its anchor (none, \<open>/\<close> or \<open>//\<close>) and the list of its components, as
  \<open>PurePosixPath\<close> keeps them: empty and \<open>.\<close> components are dropped when the path is
  built, \<open>..\<close> components are kept.
\<close>

datatype anchor = NoRoot | Slash | DoubleSlash

record path =
  anchor :: anchor
  parts :: "pystr list"

definition anchor_str :: "anchor \<Rightarrow> pystr" where
  "anchor_str a = (case a of NoRoot \<Rightarrow> [] | Slash \<Rightarrow> py ''/'' | DoubleSlash \<Rightarrow> py ''//'')"

text \<open>\<open>Path(s)\<close>.\<close>

definition Path :: "pystr \<Rightarrow> path" where
  "Path s =
     \<lparr>anchor = (if take 2 s = py ''//'' \<and> take 3 s \<noteq> py ''///'' then DoubleSlash
                else if take 1 s = py ''/'' then Slash else NoRoot),
      parts = filter (\<lambda>c. c \<noteq> [] \<and> c \<noteq> py ''.'') (split_on 47 s)\<rparr>"

text \<open>\<open>str(p)\<close>.\<close>

definition path_str :: "path \<Rightarrow> pystr" where
  "path_str p =
     (if anchor p = NoRoot \<and> parts p = [] then py ''.''
      else anchor_str (anchor p) @ join (py ''/'') (parts p))"

text \<open>\<open>p / a / b ...\<close> for plain component names.\<close>

definition joinpath :: "path \<Rightarrow> pystr list \<Rightarrow> path" where
  "joinpath p ns = p\<lparr>parts := parts p @ ns\<rparr>"

text \<open>\<open>p.parent\<close>: a path without components is its own parent.\<close>

definition parent :: "path \<Rightarrow> path" where
  "parent p = p\<lparr>parts := butlast (parts p)\<rparr>"

text \<open>\<open>p.parents[1]\<close>: the parent's parent, \<open>IndexError\<close> when there is none.\<close>

definition parents1 :: "path \<Rightarrow> error + path" where
  "parents1 p =
     (if length (parts p) < 2 then Inl IndexError
      else Inr (p\<lparr>parts := butlast (butlast (parts p))\<rparr>))"

text \<open>
  \<open>p.relative_to(other)\<close>: the anchors must agree and the components of \<open>other\<close> must
  be a prefix of those of \<open>p\<close>; otherwise \<open>ValueError\<close>.
\<close>

definition relative_to :: "path \<Rightarrow> path \<Rightarrow> error + path" where
  "relative_to p other =
     (if anchor p = anchor other \<and> prefix (parts other) (parts p)
      then Inr \<lparr>anchor = NoRoot, parts = drop (length (parts other)) (parts p)\<rparr>
      else Inl ValueError)"

section \<open>The file system\<close>

text \<open>
  The file system is a tree of directories and regular files. A regular file holds the
  text its bytes decode to as UTF-8, or \<open>None\<close> when they are not valid UTF-8. A directory
  is the list of its entries in the order the operating system enumerates them.
  Symbolic links, special files and permissions are not modelled.
\<close>

datatype node =
    File "pystr option"
  | Dir "(pystr \<times> node) list"

record world =
  tree :: node
  cwd :: "pystr list"
  stdout :: pystr

text \<open>The node at a location given by real component names, from the root.\<close>

fun lookup :: "node \<Rightarrow> pystr list \<Rightarrow> node option" where
  "lookup t [] = Some t"
| "lookup t (n # ns) =
     (case t of
        File _ \<Rightarrow> None
      | Dir es \<Rightarrow> (case map_of es n of None \<Rightarrow> None | Some c \<Rightarrow> lookup c ns))"

text \<open>
  Path resolution as the operating system does it: starting from a location, every
  component is taken from a location that must be an existing directory; \<open>..\<close> goes up
  (the root is its own parent). The resulting location itself need not exist.
\<close>

fun walk :: "node \<Rightarrow> pystr list \<Rightarrow> pystr list \<Rightarrow> error + pystr list" where
  "walk t cur [] = Inr cur"
| "walk t cur (c # cs) =
     (case lookup t cur of
        None \<Rightarrow> Inl FileNotFoundError
      | Some (File _) \<Rightarrow> Inl NotADirectoryError
      | Some (Dir _) \<Rightarrow> walk t (if c = py ''..'' then butlast cur else cur @ [c]) cs)"

text \<open>
  A relative path starts from the current directory, any other from the root; the
  starting location must be a directory.
\<close>

definition base :: "world \<Rightarrow> path \<Rightarrow> pystr list" where
  "base w p = (if anchor p = NoRoot then cwd w else [])"

definition locate :: "world \<Rightarrow> path \<Rightarrow> error + pystr list" where
  "locate w p =
     (case lookup (tree w) (base w p) of
        None \<Rightarrow> Inl FileNotFoundError
      | Some (File _) \<Rightarrow> Inl NotADirectoryError
      | Some (Dir _) \<Rightarrow> walk (tree w) (base w p) (parts p))"

text \<open>\<open>p.exists()\<close>, \<open>p.is_file()\<close>, \<open>p.is_dir()\<close>: false when resolution fails.\<close>

definition exists :: "world \<Rightarrow> path \<Rightarrow> bool" where
  "exists w p =
     (case locate w p of Inl _ \<Rightarrow> False | Inr loc \<Rightarrow> lookup (tree w) loc \<noteq> None)"

definition is_file :: "world \<Rightarrow> path \<Rightarrow> bool" where
  "is_file w p =
     (case locate w p of
        Inl _ \<Rightarrow> False
      | Inr loc \<Rightarrow> (case lookup (tree w) loc of Some (File _) \<Rightarrow> True | _ \<Rightarrow> False))"

definition is_dir :: "world \<Rightarrow> path \<Rightarrow> bool" where
  "is_dir w p =
     (case locate w p of
        Inl _ \<Rightarrow> False
      | Inr loc \<Rightarrow> (case lookup (tree w) loc of Some (Dir _) \<Rightarrow> True | _ \<Rightarrow> False))"

text \<open>
  Text mode with the default \<open>newline=None\<close> translates \<open>\r\n\<close> and \<open>\r\<close> to \<open>\n\<close>
  on reading.
\<close>

fun universal_newlines :: "pystr \<Rightarrow> pystr" where
  "universal_newlines [] = []"
| "universal_newlines [c] = [if c = 13 then NL else c]"
| "universal_newlines (c # d # ds) =
     (if c = 13 \<and> d = NL then NL # universal_newlines ds
      else if c = 13 then NL # universal_newlines (d # ds)
      else c # universal_newlines (d # ds))"

text \<open>\<open>p.read_text(encoding="utf-8")\<close>.\<close>

definition read_text :: "world \<Rightarrow> path \<Rightarrow> error + pystr" where
  "read_text w p =
     (case locate w p of
        Inl e \<Rightarrow> Inl e
      | Inr loc \<Rightarrow>
          (case lookup (tree w) loc of
             None \<Rightarrow> Inl FileNotFoundError
           | Some (Dir _) \<Rightarrow> Inl IsADirectoryError
           | Some (File None) \<Rightarrow> Inl UnicodeDecodeError
           | Some (File (Some s)) \<Rightarrow> Inr (universal_newlines s)))"

section \<open>The compiler\<close>

text \<open>
  The loop of \<open>build_compilation\<close>: \<open>sections\<close> is the list built so far; the first
  exception ends the loop.
\<close>

fun build_sections :: "world \<Rightarrow> path list \<Rightarrow> path \<Rightarrow> pystr list \<Rightarrow> error + pystr list" where
  "build_sections w [] repo_root sections = Inr sections"
| "build_sections w (p # ps) repo_root sections =
     (case relative_to p repo_root of
        Inl e \<Rightarrow> Inl e
      | Inr rel_path \<Rightarrow>
          (let header = py ''# File: '' @ path_str rel_path @ [NL, NL] in
           case read_text w p of
             Inl e \<Rightarrow> Inl e
           | Inr content \<Rightarrow>
               build_sections w ps repo_root (sections @ [header @ rstrip content @ [NL]])))"

definition separator :: pystr where
  "separator = [NL, NL] @ py ''---'' @ [NL, NL]"

definition build_compilation :: "world \<Rightarrow> path list \<Rightarrow> path \<Rightarrow> error + pystr" where
  "build_compilation w md_files repo_root =
     (case build_sections w md_files repo_root [] of
        Inl e \<Rightarrow> Inl e
      | Inr sections \<Rightarrow> Inr (join separator sections @ [NL]))"

section \<open>The file collector\<close>

text \<open>The pattern \<open>*.md\<close> matches exactly the names that end in \<open>.md\<close>.\<close>

definition matches_md :: "pystr \<Rightarrow> bool" where
  "matches_md name = suffix (py ''.md'') name"

text \<open>
  The recursive traversal below a directory, as relative component lists: the matching
  entries of the directory itself, then the traversal of every subdirectory. A regular
  file has nothing below it.
\<close>

fun rglob_rel :: "node \<Rightarrow> pystr list list" where
  "rglob_rel (File _) = []"
| "rglob_rel (Dir es) =
     map (\<lambda>e. [fst e]) (filter (\<lambda>e. matches_md (fst e)) es) @
     concat (map (\<lambda>e. map ((#) (fst e)) (rglob_rel (snd e))) es)"

text \<open>\<open>d.rglob("*.md")\<close>: the paths found, each as \<open>d\<close> joined with the relative path.\<close>

definition rglob :: "world \<Rightarrow> path \<Rightarrow> path list" where
  "rglob w d =
     (case locate w d of
        Inl _ \<Rightarrow> []
      | Inr loc \<Rightarrow>
          (case lookup (tree w) loc of
             None \<Rightarrow> []
           | Some t \<Rightarrow> map (joinpath d) (rglob_rel t)))"

text \<open>
  Paths compare by their components, the anchor first when there is one; components
  compare as strings, by code point.
\<close>

definition cparts :: "path \<Rightarrow> pystr list" where
  "cparts p = (case anchor p of NoRoot \<Rightarrow> [] | a \<Rightarrow> [anchor_str a]) @ parts p"

text \<open>\<open>sorted\<close> applies the key function to every element before it compares any.\<close>

fun keyed :: "('a \<Rightarrow> error + 'k) \<Rightarrow> 'a list \<Rightarrow> error + ('k \<times> 'a) list" where
  "keyed f [] = Inr []"
| "keyed f (x # xs) =
     (case f x of
        Inl e \<Rightarrow> Inl e
      | Inr k \<Rightarrow> (case keyed f xs of Inl e \<Rightarrow> Inl e | Inr ks \<Rightarrow> Inr ((k, x) # ks)))"

definition collect_markdown_files :: "world \<Rightarrow> path \<Rightarrow> error + path list" where
  "collect_markdown_files w docs_dir =
     (case keyed (\<lambda>p. relative_to p docs_dir) (filter (is_file w) (rglob w docs_dir)) of
        Inl e \<Rightarrow> Inl e
      | Inr ks \<Rightarrow> Inr (map snd (sort_key (\<lambda>kp. cparts (fst kp)) ks)))"

section \<open>The writer\<close>

text \<open>
  Storing a node at a location: an existing entry is replaced in place, a new entry is
  added to its directory. Nothing changes when the directory to hold it is missing.
\<close>

fun put :: "pystr list \<Rightarrow> node \<Rightarrow> node \<Rightarrow> node" where
  "put [] new t = new"
| "put (n # ns) new t =
     (case t of
        File c \<Rightarrow> File c
      | Dir es \<Rightarrow>
          (case map_of es n of
             None \<Rightarrow> (if ns = [] then Dir (es @ [(n, new)]) else Dir es)
           | Some c \<Rightarrow> Dir (AList.update n (put ns new c) es)))"

text \<open>\<open>os.mkdir(p)\<close>.\<close>

definition os_mkdir :: "world \<Rightarrow> path \<Rightarrow> error + world" where
  "os_mkdir w p =
     (case locate w p of
        Inl e \<Rightarrow> Inl e
      | Inr loc \<Rightarrow>
          (if lookup (tree w) loc \<noteq> None then Inl FileExistsError
           else (case lookup (tree w) (butlast loc) of
                   Some (Dir _) \<Rightarrow> Inr (w\<lparr>tree := put loc (Dir []) (tree w)\<rparr>)
                 | _ \<Rightarrow> Inl FileNotFoundError)))"

text \<open>
  \<open>p.mkdir(parents=parents, exist_ok=True)\<close>: when \<open>os.mkdir\<close> finds no parent and
  \<open>parents\<close> is set, the parent is made first and the directory is made again
  without \<open>parents\<close>; any other failure is ignored when the path is a directory already.
\<close>

function mkdir :: "bool \<Rightarrow> world \<Rightarrow> path \<Rightarrow> error + world" where
  "mkdir parents w p =
     (case os_mkdir w p of
        Inr w' \<Rightarrow> Inr w'
      | Inl e \<Rightarrow>
          (if e = FileNotFoundError then
             (if \<not> parents \<or> parent p = p then Inl e
              else (case mkdir True w (parent p) of
                      Inl e' \<Rightarrow> Inl e'
                    | Inr w' \<Rightarrow> mkdir False w' p))
           else if is_dir w p then Inr w else Inl e))"
  by pat_completeness auto
termination
proof (relation "measure (\<lambda>(parents, w, p). 2 * length (parts p) + (if parents then 1 else 0))",
    goal_cases)
  case 1
  show ?case by simp
next
  case (2 parents w p e)
  have "parts p \<noteq> []"
  proof
    assume "parts p = []"
    then have "parent p = p" by (simp add: parent_def)
    with 2 show False by simp
  qed
  then obtain x xs where "parts p = x # xs" by (cases "parts p") auto
  then show ?case by (simp add: parent_def)
next
  case 3
  then show ?case by simp
qed

declare mkdir.simps [simp del]

text \<open>
  \<open>p.write_text(s, encoding="utf-8")\<close>: the file is opened for writing, which creates
  it or empties it, and \<open>s\<close> becomes its whole content (on POSIX no newline is
  translated on writing).
\<close>

definition write_text :: "world \<Rightarrow> path \<Rightarrow> pystr \<Rightarrow> error + world" where
  "write_text w p s =
     (case locate w p of
        Inl e \<Rightarrow> Inl e
      | Inr loc \<Rightarrow>
          (case lookup (tree w) loc of
             Some (Dir _) \<Rightarrow> Inl IsADirectoryError
           | _ \<Rightarrow>
               (case lookup (tree w) (butlast loc) of
                  Some (Dir _) \<Rightarrow> Inr (w\<lparr>tree := put loc (File (Some s)) (tree w)\<rparr>)
                | _ \<Rightarrow> Inl FileNotFoundError)))"

definition write_output :: "pystr \<Rightarrow> path option \<Rightarrow> world \<Rightarrow> (error + unit) \<times> world" where
  "write_output compiled destination w =
     (case destination of
        None \<Rightarrow> (Inr (), w\<lparr>stdout := stdout w @ compiled\<rparr>)
      | Some d \<Rightarrow>
          (case mkdir True w (parent d) of
             Inl e \<Rightarrow> (Inl e, w)
           | Inr w1 \<Rightarrow>
               (case write_text w1 d compiled of
                  Inl e \<Rightarrow> (Inl e, w1)
                | Inr w2 \<Rightarrow> (Inr (), w2))))"

section \<open>Conditions on the file system\<close>

text \<open>Whether a location holds a directory, or a regular file.\<close>

definition is_Dir :: "node option \<Rightarrow> bool" where
  "is_Dir x = (case x of Some (Dir _) \<Rightarrow> True | _ \<Rightarrow> False)"

definition is_File :: "node option \<Rightarrow> bool" where
  "is_File x = (case x of Some (File _) \<Rightarrow> True | _ \<Rightarrow> False)"



section \<open>The command line\<close>

text \<open>
  \<open>parse_args\<close> builds an \<open>ArgumentParser\<close> with the optional positional argument
  \<open>output\<close> (here \<open>output_arg\<close>), whose default is \<open>-\<close>, and with the help option
  \<open>-h\<close>, \<open>--help\<close> that every parser has, and lets it parse \<open>sys.argv[1:]\<close>. The parser
  is modelled as the \<open>argparse\<close> module of CPython 3.11 behaves for this parser, with
  untranslated messages.
\<close>

record namespace =
  output_arg :: pystr

definition default_namespace :: namespace where
  "default_namespace = \<lparr>output_arg = py ''-''\<rparr>"

text \<open>
  The pattern \<open>\d\<close> matches the decimal digits of Unicode, which come in runs of ten;
  these are the code points of the zeros.
\<close>

definition decimal_zeros :: "nat list" where
  "decimal_zeros =
     [48, 1632, 1776, 1984, 2406, 2534, 2662, 2790, 2918, 3046, 3174, 3302, 3430, 3558, 3664,
      3792, 3872, 4160, 4240, 6112, 6160, 6470, 6608, 6784, 6800, 6992, 7088, 7232, 7248, 42528,
      43216, 43264, 43472, 43504, 43600, 44016, 65296, 66720, 68912, 69734, 69872, 69942, 70096,
      70384, 70736, 70864, 71248, 71360, 71472, 71904, 72016, 72784, 73040, 73120, 92768, 92864,
      93008, 120782, 120792, 120802, 120812, 120822, 123200, 123632, 125264, 130032]"

definition isdecimal :: "nat \<Rightarrow> bool" where
  "isdecimal c = list_ex (\<lambda>z. z \<le> c \<and> c < z + 10) decimal_zeros"

text \<open>
  An argument that looks like a negative number, \<open>^-\d+$|^-\d*\.\d+$\<close>; the \<open>$\<close> also
  matches before a newline that ends the string.
\<close>

definition negative_number :: "pystr \<Rightarrow> bool" where
  "negative_number s =
     (case (if s \<noteq> [] \<and> last s = NL then butlast s else s) of
        [] \<Rightarrow> False
      | c # r \<Rightarrow>
          (if c \<noteq> 45 then False
           else if r \<noteq> [] \<and> list_all isdecimal r then True
           else (case dropWhile isdecimal r of
                   [] \<Rightarrow> False
                 | d # f \<Rightarrow> d = 46 \<and> f \<noteq> [] \<and> list_all isdecimal f)))"

text \<open>
  What the parser makes of one argument before any \<open>--\<close>: a positional argument, the
  help option, the help option with an explicit argument it cannot take (the error
  \<open>ignored explicit argument\<close>), or an option the parser does not know.
\<close>

datatype arg_kind = Positional | HelpOption | IgnoredExplicit | Unrecognized

text \<open>
  The characters that follow \<open>-h\<close> in one argument are read as further one-letter
  options: a further \<open>h\<close> is the help option again, \<open>-\<close> and \<open>=\<close> are explicit arguments
  the option cannot take, and at any other letter the rest is left over as an unknown
  option, after which the help option read so far takes effect.
\<close>

fun short_options :: "pystr \<Rightarrow> arg_kind" where
  "short_options [] = HelpOption"
| "short_options (c # e) =
     (if c = 45 then IgnoredExplicit
      else if c = 104 then (if e \<noteq> [] \<and> hd e = 61 then IgnoredExplicit else short_options e)
      else HelpOption)"

text \<open>
  An argument is positional when it is empty, does not start with \<open>-\<close> or is \<open>-\<close> alone.
  \<open>-h\<close> and \<open>--help\<close> are the help option, as is every abbreviation \<open>--h\<close>, \<open>--he\<close>,
  \<open>--hel\<close>; with \<open>=\<close> they carry an explicit argument. Any other argument is positional
  when it looks like a negative number or holds a space, and an unknown option otherwise.
\<close>

definition arg_kind_of :: "pystr \<Rightarrow> arg_kind" where
  "arg_kind_of s =
     (let option_string = takeWhile (\<lambda>c. c \<noteq> 61) s in
      if s = [] then Positional
      else if hd s \<noteq> 45 then Positional
      else if s = py ''-h'' \<or> s = py ''--help'' then HelpOption
      else if length s = 1 then Positional
      else if 61 \<in> set s \<and> (option_string = py ''-h'' \<or> option_string = py ''--help'')
        then IgnoredExplicit
      else if s ! 1 = 45 \<and> prefix option_string (py ''--help'')
        then (if 61 \<in> set s then IgnoredExplicit else HelpOption)
      else if s ! 1 \<noteq> 45 \<and> take 2 s = py ''-h'' then short_options (drop 2 s)
      else if negative_number s then Positional
      else if 32 \<in> set s then Positional
      else Unrecognized)"

text \<open>The three ways the parser ends.\<close>

datatype parsed = Parsed namespace | HelpExit | ErrorExit

text \<open>
  With no option among the arguments, the positional argument takes the first argument,
  together with a \<open>--\<close> right before or right after it, which is dropped; whatever is
  left over is an error. The first list holds the arguments before the first \<open>--\<close>, the
  second list starts with the first \<open>--\<close> when there is one.
\<close>

fun take_positional :: "pystr list \<Rightarrow> pystr list \<Rightarrow> parsed" where
  "take_positional [] [] = Parsed default_namespace"
| "take_positional [] [dd] = Parsed default_namespace"
| "take_positional [] [dd, s] = Parsed \<lparr>output_arg = s\<rparr>"
| "take_positional [a] [] = Parsed \<lparr>output_arg = a\<rparr>"
| "take_positional [a] [dd] = Parsed \<lparr>output_arg = a\<rparr>"
| "take_positional pre post = ErrorExit"

text \<open>
  \<open>parser.parse_args(args)\<close>. Everything after the first \<open>--\<close> is positional. The
  arguments are taken from left to right: the first help option in them ends the run,
  by printing the help when it is well formed and by an error otherwise, even when
  arguments before it are left over. Without a help option, an unknown option or a
  second positional argument is an error, which is reported at the end.
\<close>

definition parser_parse_args :: "pystr list \<Rightarrow> parsed" where
  "parser_parse_args args =
     (let pre = takeWhile (\<lambda>s. s \<noteq> py ''--'') args;
          post = dropWhile (\<lambda>s. s \<noteq> py ''--'') args;
          kinds = map arg_kind_of pre
      in case filter (\<lambda>k. k = HelpOption \<or> k = IgnoredExplicit) kinds of
           k # _ \<Rightarrow> (if k = HelpOption then HelpExit else ErrorExit)
         | [] \<Rightarrow> (if Unrecognized \<in> set kinds then ErrorExit else take_positional pre post))"

text \<open>\<open>os.path.basename\<close>: what follows the last \<open>/\<close>.\<close>

definition basename :: "pystr \<Rightarrow> pystr" where
  "basename p = rev (takeWhile (\<lambda>c. c \<noteq> 47) (rev p))"

text \<open>
  \<open>parser.format_help()\<close>, as laid out when every line fits the width of the terminal.
\<close>

definition format_help :: "pystr \<Rightarrow> pystr" where
  "format_help prog =
     py ''usage: '' @ prog @ py '' [-h] [output]'' @ [NL, NL]
     @ py ''Compile docs/10_language markdown files into a single document.'' @ [NL, NL]
     @ py ''positional arguments:'' @ [NL]
     @ py ''  output      Path of the combined markdown file (default: stdout).'' @ [NL, NL]
     @ py ''options:'' @ [NL]
     @ py ''  -h, --help  show this help message and exit'' @ [NL]"

text \<open>
  How a call ends: it returns, or it raises \<open>SystemExit\<close> with a message (as \<open>main\<close>
  does) or with a status (as \<open>sys.exit\<close> does for \<open>argparse\<close>), or it raises another
  exception.
\<close>

datatype outcome =
    Returned
  | SystemExit pystr
  | SystemExitStatus nat
  | Raised error

text \<open>
  The exit status of the process: an uncaught \<open>SystemExit\<close> with a message prints the
  message and exits with status 1, as does any other uncaught exception.
\<close>

definition exit_status :: "outcome \<Rightarrow> nat" where
  "exit_status r =
     (case r of Returned \<Rightarrow> 0 | SystemExit _ \<Rightarrow> 1 | SystemExitStatus n \<Rightarrow> n | Raised _ \<Rightarrow> 1)"

text \<open>
  \<open>parse_args()\<close>, given \<open>sys.argv\<close>: the program name in the help is the base name of
  \<open>sys.argv[0]\<close>. The help goes to standard output and ends the run with status 0; an
  error ends it with status 2 (its message goes to standard error, which is not part of
  the world).
\<close>

definition parse_args :: "pystr list \<Rightarrow> world \<Rightarrow> (outcome + namespace) \<times> world" where
  "parse_args sys_argv w =
     (case sys_argv of
        [] \<Rightarrow> (Inl (Raised IndexError), w)
      | argv0 # args \<Rightarrow>
          (case parser_parse_args args of
             Parsed ns \<Rightarrow> (Inr ns, w)
           | HelpExit \<Rightarrow>
               (Inl (SystemExitStatus 0), w\<lparr>stdout := stdout w @ format_help (basename argv0)\<rparr>)
           | ErrorExit \<Rightarrow> (Inl (SystemExitStatus 2), w)))"

section \<open>The entry point\<close>

text \<open>The destination \<open>main\<close> passes to the writer: none for the argument \<open>-\<close>.\<close>

definition destination_of :: "namespace \<Rightarrow> path option" where
  "destination_of args = (if output_arg args = py ''-'' then None else Some (Path (output_arg args)))"

definition docs_dir_of :: "path \<Rightarrow> path" where
  "docs_dir_of repo_root = joinpath repo_root [py ''docs'', py ''10_language'']"

text \<open>
  \<open>main\<close>, given \<open>sys.argv\<close> and the resolved location of the script,
  \<open>Path(__file__).resolve()\<close>.
\<close>

definition main :: "pystr list \<Rightarrow> path \<Rightarrow> world \<Rightarrow> outcome \<times> world" where
  "main sys_argv script w0 =
     (case parse_args sys_argv w0 of
        (Inl ended, w) \<Rightarrow> (ended, w)
      | (Inr args, w) \<Rightarrow>
     (case parents1 script of
        Inl e \<Rightarrow> (Raised e, w)
      | Inr repo_root \<Rightarrow>
          (let docs_dir = docs_dir_of repo_root in
           if \<not> exists w docs_dir
           then (SystemExit (py ''Missing docs directory: '' @ path_str docs_dir), w)
           else
             (case collect_markdown_files w docs_dir of
                Inl e \<Rightarrow> (Raised e, w)
              | Inr md_files \<Rightarrow>
                  if md_files = []
                  then (SystemExit (py ''No markdown files found under '' @ path_str docs_dir), w)
                  else
                    (case build_compilation w md_files repo_root of
                       Inl e \<Rightarrow> (Raised e, w)
                     | Inr compiled \<Rightarrow>
                         (let destination = destination_of args
                          in case write_output compiled destination w of
                               (Inl e, w') \<Rightarrow> (Raised e, w')
                             | (Inr _, w') \<Rightarrow> (Returned, w')))))))"

section \<open>The output format, as the specification words it\<close>

text \<open>
  A relative path as a heading shows it: its components with a slash between them,
  that is, every component followed by a slash, without the last slash. The relative
  path without components is shown as a dot.
\<close>

definition relative_path_text :: "path \<Rightarrow> pystr" where
  "relative_path_text rel =
     (if parts rel = [] then py ''.''
      else butlast (concat (map (\<lambda>n. n @ py ''/'') (parts rel))))"

text \<open>
  A section: the heading line \<open># File: <relative-path>\<close>, a blank line, the content with
  trailing whitespace stripped, one newline.
\<close>

definition section_text :: "path \<Rightarrow> pystr \<Rightarrow> pystr" where
  "section_text rel content =
     py ''# File: '' @ relative_path_text rel @ [NL] @ [NL] @ rstrip content @ [NL]"

section \<open>Example worlds\<close>

text \<open>
  A repository at \<open>/r\<close> with the script in \<open>/r/bin\<close> and two documents,
  \<open>a/one.md\<close> and \<open>b/two.md\<close>, under \<open>/r/docs/10_language\<close>; the directory \<open>b\<close> is
  enumerated before \<open>a\<close>.
\<close>

definition ex_root :: path where
  "ex_root = \<lparr>anchor = Slash, parts = [py ''r'']\<rparr>"

text \<open>The command line without arguments, and with an output file.\<close>

definition ex_argv :: "pystr list" where
  "ex_argv = [py ''bin/compile_language_docs.py'']"

definition ex_argv_out :: "pystr list" where
  "ex_argv_out = [py ''bin/compile_language_docs.py'', py ''out.md'']"

definition ex_argv_help :: "pystr list" where
  "ex_argv_help = [py ''bin/compile_language_docs.py'', py ''-h'']"

definition ex_script :: path where
  "ex_script = \<lparr>anchor = Slash, parts = [py ''r'', py ''bin'', py ''compile_language_docs.py'']\<rparr>"

definition ex_docs :: path where
  "ex_docs = \<lparr>anchor = Slash, parts = [py ''r'', py ''docs'', py ''10_language'']\<rparr>"

definition ex_one :: path where
  "ex_one = joinpath ex_docs [py ''a'', py ''one.md'']"

definition ex_two :: path where
  "ex_two = joinpath ex_docs [py ''b'', py ''two.md'']"

definition ex_bin :: "pystr \<times> node" where
  "ex_bin = (py ''bin'', Dir [(py ''compile_language_docs.py'', File (Some (py ''pass'')))])"

definition ex_world :: world where
  "ex_world =
     \<lparr>tree = Dir [(py ''r'', Dir [ex_bin,
        (py ''docs'', Dir [(py ''10_language'', Dir [
           (py ''b'', Dir [(py ''two.md'', File (Some (py ''World'')))]),
           (py ''a'', Dir [(py ''one.md'', File (Some (py ''Hello'' @ [NL, NL, NL])))])])])])],
      cwd = [py ''r''], stdout = []\<rparr>"

text \<open>The same repository without its documentation directory.\<close>

definition ex_world_missing :: world where
  "ex_world_missing = \<lparr>tree = Dir [(py ''r'', Dir [ex_bin])], cwd = [py ''r''], stdout = []\<rparr>"

text \<open>
  The same repository with a documentation directory that holds no markdown file: a
  text file, and a directory whose name ends in \<open>.md\<close>.
\<close>

definition ex_world_empty :: world where
  "ex_world_empty =
     \<lparr>tree = Dir [(py ''r'', Dir [ex_bin,
        (py ''docs'', Dir [(py ''10_language'', Dir [
           (py ''readme.txt'', File (Some (py ''x''))),
           (py ''notes.md'', Dir [])])])])],
      cwd = [py ''r''], stdout = []\<rparr>"

text \<open>A path beneath the repository that does not exist, and a path outside it.\<close>

definition ex_missing :: path where
  "ex_missing = joinpath ex_docs [py ''zzz.md'']"

definition ex_outside :: path where
  "ex_outside = \<lparr>anchor = Slash, parts = [py ''etc'', py ''x.md'']\<rparr>"

definition ex_rel_one :: path where
  "ex_rel_one = \<lparr>anchor = NoRoot, parts = [py ''docs'', py ''10_language'', py ''a'', py ''one.md'']\<rparr>"

definition ex_rel_two :: path where
  "ex_rel_two = \<lparr>anchor = NoRoot, parts = [py ''docs'', py ''10_language'', py ''b'', py ''two.md'']\<rparr>"

text \<open>
  A destination below directories that do not exist yet, \<open>out/x/y.md\<close> from the current
  directory \<open>/r\<close>, and the worlds after writing \<open>new\<close> to it and to the existing
  document \<open>b/two.md\<close>.
\<close>

definition ex_dest :: path where
  "ex_dest = \<lparr>anchor = NoRoot, parts = [py ''out'', py ''x'', py ''y.md'']\<rparr>"

definition ex_written :: world where
  "ex_written =
     ex_world\<lparr>tree := Dir [(py ''r'', Dir [ex_bin,
        (py ''docs'', Dir [(py ''10_language'', Dir [
           (py ''b'', Dir [(py ''two.md'', File (Some (py ''World'')))]),
           (py ''a'', Dir [(py ''one.md'', File (Some (py ''Hello'' @ [NL, NL, NL])))])])]),
        (py ''out'', Dir [(py ''x'', Dir [(py ''y.md'', File (Some (py ''new'')))])])])]\<rparr>"

definition ex_overwritten :: world where
  "ex_overwritten =
     ex_world\<lparr>tree := Dir [(py ''r'', Dir [ex_bin,
        (py ''docs'', Dir [(py ''10_language'', Dir [
           (py ''b'', Dir [(py ''two.md'', File (Some (py ''new'')))]),
           (py ''a'', Dir [(py ''one.md'', File (Some (py ''Hello'' @ [NL, NL, NL])))])])])])]\<rparr>"

section \<open>Evaluation of the examples\<close>

lemmas ex_defs =
  ex_world_def ex_world_missing_def ex_world_empty_def ex_bin_def ex_root_def ex_script_def
  ex_docs_def ex_one_def ex_two_def ex_missing_def ex_outside_def ex_rel_one_def ex_rel_two_def
  default_namespace_def ex_argv_def ex_argv_out_def ex_argv_help_def

lemmas path_defs =
  py_def joinpath_def relative_to_def path_str_def anchor_str_def parents1_def parent_def
  docs_dir_of_def cparts_def

lemmas fs_defs =
  locate_def base_def exists_def is_file_def is_dir_def read_text_def rglob_def matches_md_def
  suffix_def

lemmas argv_defs =
  parse_args_def parser_parse_args_def arg_kind_of_def basename_def

lemma ex_parse:
  "parse_args ex_argv w = (Inr default_namespace, w)"
  "parse_args ex_argv_out w = (Inr \<lparr>output_arg = py ''out.md''\<rparr>, w)"
  by (simp_all add: ex_defs argv_defs py_def)

lemma ex_parse_help:
  "parse_args ex_argv_help w =
     (Inl (SystemExitStatus 0), w\<lparr>stdout := stdout w @ format_help (py ''compile_language_docs.py'')\<rparr>)"
  by (simp add: ex_defs argv_defs py_def)

lemma ex_parents1: "parents1 ex_script = Inr ex_root"
  by (simp add: ex_defs path_defs)

lemma ex_docs_dir: "docs_dir_of ex_root = ex_docs"
  by (simp add: ex_defs path_defs)

lemma ex_rel_to_root:
  "relative_to ex_one ex_root = Inr ex_rel_one"
  "relative_to ex_two ex_root = Inr ex_rel_two"
  "relative_to ex_outside ex_root = Inl ValueError"
  by (simp_all add: ex_defs path_defs)

lemma ex_read:
  "read_text ex_world ex_one = Inr (py ''Hello'' @ [NL, NL, NL])"
  "read_text ex_world ex_two = Inr (py ''World'')"
  by (simp_all add: ex_defs path_defs fs_defs)

lemma ex_exists:
  "\<not> exists ex_world_missing (docs_dir_of ex_root)"
  "exists ex_world_empty (docs_dir_of ex_root)"
  by (simp_all add: ex_defs path_defs fs_defs)

lemma ex_collect_empty: "collect_markdown_files ex_world_empty (docs_dir_of ex_root) = Inr []"
  by (simp add: collect_markdown_files_def ex_defs path_defs fs_defs)

lemma ex_collect: "collect_markdown_files ex_world ex_docs = Inr [ex_one, ex_two]"
  by (simp add: collect_markdown_files_def ex_defs path_defs fs_defs)

lemma ex_compiled_root:
  "build_compilation ex_world [ex_one, ex_two] ex_root =
     Inr (py ''# File: docs/10_language/a/one.md'' @ [NL, NL] @ py ''Hello'' @ [NL, NL, NL]
          @ py ''---'' @ [NL, NL]
          @ py ''# File: docs/10_language/b/two.md'' @ [NL, NL] @ py ''World'' @ [NL] @ [NL])"
  by (simp add: build_compilation_def separator_def rstrip_def isspace_def Let_def
      ex_defs path_defs fs_defs)

lemma ex_compiled_docs:
  "build_compilation ex_world [ex_one, ex_two] ex_docs =
     Inr (py ''# File: a/one.md'' @ [NL, NL] @ py ''Hello'' @ [NL, NL, NL]
          @ py ''---'' @ [NL, NL]
          @ py ''# File: b/two.md'' @ [NL, NL] @ py ''World'' @ [NL] @ [NL])"
  by (simp add: build_compilation_def separator_def rstrip_def isspace_def Let_def
      ex_defs path_defs fs_defs)

lemma ex_main:
  "main ex_argv ex_script ex_world =
     (Returned,
      ex_world\<lparr>stdout :=
        py ''# File: docs/10_language/a/one.md'' @ [NL, NL] @ py ''Hello'' @ [NL, NL, NL]
        @ py ''---'' @ [NL, NL]
        @ py ''# File: docs/10_language/b/two.md'' @ [NL, NL] @ py ''World'' @ [NL] @ [NL]\<rparr>)"
proof -
  have "stdout ex_world = []" by (simp add: ex_world_def)
  then show ?thesis
    using ex_parents1 ex_docs_dir ex_collect ex_compiled_root
    by (simp add: main_def ex_parse Let_def exists_def locate_def base_def write_output_def
        destination_of_def default_namespace_def ex_docs_def ex_world_def ex_bin_def py_def)
qed

section \<open>Properties of the compiler\<close>

lemma join_concat: "join sep (x # xs) = x @ concat (map (\<lambda>y. sep @ y) xs)"
  by (induction xs arbitrary: x) simp_all

lemma butlast_concat_snoc:
  "butlast (concat (map (\<lambda>n. n @ [c]) (x # xs))) = x @ concat (map (\<lambda>y. [c] @ y) xs)"
proof (induction xs arbitrary: x)
  case Nil
  show ?case by (simp add: butlast_append)
next
  case (Cons y ys)
  have "butlast (concat (map (\<lambda>n. n @ [c]) (x # y # ys)))
          = x @ [c] @ butlast (concat (map (\<lambda>n. n @ [c]) (y # ys)))"
    by (simp add: butlast_append)
  with Cons[of y] show ?case by simp
qed

lemma join_slash:
  "ns \<noteq> [] \<Longrightarrow> join (py ''/'') ns = butlast (concat (map (\<lambda>n. n @ py ''/'') ns))"
proof -
  assume "ns \<noteq> []"
  then obtain x xs where "ns = x # xs" by (cases ns) auto
  moreover have "py ''/'' = [47]" by (simp add: py_def)
  ultimately show ?thesis by (simp only: join_concat butlast_concat_snoc)
qed

lemma relative_to_text:
  "relative_to p repo_root = Inr rel \<Longrightarrow> path_str rel = relative_path_text rel"
  by (auto simp: relative_to_def path_str_def relative_path_text_def anchor_str_def join_slash
      split: if_splits)

lemma build_sections_ok:
  "list_all2 (\<lambda>p rc. relative_to p repo_root = Inr (fst rc) \<and> read_text w p = Inr (snd rc)) md_files rcs
   \<Longrightarrow> build_sections w md_files repo_root acc
       = Inr (acc @ map (\<lambda>rc. section_text (fst rc) (snd rc)) rcs)"
  by (induction arbitrary: acc rule: list_all2_induct)
     (auto simp: Let_def section_text_def relative_to_text)

lemma rstrip_decomp: "\<exists>ws. s = rstrip s @ ws \<and> (\<forall>c\<in>set ws. isspace c)"
proof -
  have "rev (dropWhile isspace (rev s)) @ rev (takeWhile isspace (rev s))
          = rev (takeWhile isspace (rev s) @ dropWhile isspace (rev s))"
    by (simp only: rev_append)
  also have "\<dots> = s" by simp
  finally have "s = rstrip s @ rev (takeWhile isspace (rev s))"
    by (simp add: rstrip_def)
  moreover have "\<forall>c\<in>set (rev (takeWhile isspace (rev s))). isspace c"
    by (auto dest: set_takeWhileD)
  ultimately show ?thesis by blast
qed

lemma rstrip_last: "rstrip s \<noteq> [] \<Longrightarrow> \<not> isspace (last (rstrip s))"
  unfolding rstrip_def by (simp add: last_rev hd_dropWhile)

lemma rstrip_blank_lines:
  assumes "body \<noteq> []" and "\<not> isspace (last body)"
  shows "rstrip (body @ replicate k NL) = body"
proof -
  have nl: "isspace NL" by (simp add: isspace_def)
  have "dropWhile isspace (replicate k NL @ rev body) = dropWhile isspace (rev body)"
    using nl by (induction k) (auto simp: replicate_app_Cons_same)
  moreover have "dropWhile isspace (rev body) = rev body"
    using assms by (cases "rev body") (auto simp: last_rev hd_rev[symmetric])
  ultimately show ?thesis by (simp add: rstrip_def)
qed

lemma build_sections_cong:
  "\<forall>p\<in>set md_files. read_text w1 p = read_text w2 p \<Longrightarrow>
   build_sections w1 md_files repo_root acc = build_sections w2 md_files repo_root acc"
  by (induction md_files arbitrary: acc) (auto simp: Let_def split: sum.splits)

lemma build_sections_append:
  "build_sections w (pre @ rest) repo_root acc =
     (case build_sections w pre repo_root acc of
        Inl e \<Rightarrow> Inl e
      | Inr acc' \<Rightarrow> build_sections w rest repo_root acc')"
  by (induction pre arbitrary: acc) (auto simp: Let_def split: sum.splits)

lemma build_sections_fail:
  "\<exists>p\<in>set md_files. relative_to p repo_root = Inl e0 \<Longrightarrow>
   \<exists>e. build_sections w md_files repo_root acc = Inl e"
  by (induction md_files arbitrary: acc) (auto simp: Let_def split: sum.splits)

lemma build_sections_total:
  "\<forall>q\<in>set md_files. (\<exists>rel. relative_to q repo_root = Inr rel) \<and> (\<exists>c. read_text w q = Inr c) \<Longrightarrow>
   \<exists>ss. build_sections w md_files repo_root acc = Inr ss"
  by (induction md_files arbitrary: acc) (auto simp: Let_def split: sum.splits)

lemma main_no_files:
  assumes "parse_args sys_argv w = (Inr args, w)"
    and "parents1 script = Inr repo_root"
    and "exists w (docs_dir_of repo_root)"
    and "collect_markdown_files w (docs_dir_of repo_root) = Inr []"
  shows "main sys_argv script w =
           (SystemExit (py ''No markdown files found under '' @ path_str (docs_dir_of repo_root)), w)"
  using assms by (simp add: main_def Let_def)

text \<open>
  C1. When every listed path lies beneath the root (with relative path \<open>fst rc\<close>) and is
  readable (with content \<open>snd rc\<close>), the output of \<open>build_compilation\<close> is the section
  of the first file, then for every further file a blank line, the rule \<open>---\<close>, a blank
  line and its section, then one newline. A section is the heading with the relative
  path, a blank line, the stripped content and one newline; the stripped content is
  the content without a suffix of whitespace and does not end in whitespace itself, so
  trailing blank lines of a file leave exactly one newline at the end of its section.
\<close>

theorem build_compilation_format:
  assumes "md_files \<noteq> []"
    and "list_all2 (\<lambda>p rc. relative_to p repo_root = Inr (fst rc) \<and> read_text w p = Inr (snd rc))
           md_files rcs"
  shows "build_compilation w md_files repo_root
           = Inr (section_text (fst (hd rcs)) (snd (hd rcs))
                  @ concat (map (\<lambda>rc. [NL, NL] @ py ''---'' @ [NL, NL]
                                       @ section_text (fst rc) (snd rc)) (tl rcs))
                  @ [NL])
       \<and> (\<forall>rc\<in>set rcs. \<exists>ws. snd rc = rstrip (snd rc) @ ws \<and> (\<forall>c\<in>set ws. isspace c)
              \<and> (rstrip (snd rc) = [] \<or> \<not> isspace (last (rstrip (snd rc)))))
       \<and> (\<forall>body k. body \<noteq> [] \<and> \<not> isspace (last body) \<longrightarrow>
              section_text rel (body @ replicate k NL)
                = py ''# File: '' @ relative_path_text rel @ [NL, NL] @ body @ [NL])"
proof -
  from assms obtain rc rest where rcs: "rcs = rc # rest"
    by (cases rcs) auto
  have a: "build_compilation w md_files repo_root
           = Inr (section_text (fst (hd rcs)) (snd (hd rcs))
                  @ concat (map (\<lambda>rc. [NL, NL] @ py ''---'' @ [NL, NL]
                                       @ section_text (fst rc) (snd rc)) (tl rcs))
                  @ [NL])"
    using build_sections_ok[OF assms(2), of "[]"]
    by (simp add: build_compilation_def rcs join_concat separator_def comp_def)
  have c: "\<forall>rc\<in>set rcs. \<exists>ws. snd rc = rstrip (snd rc) @ ws \<and> (\<forall>c\<in>set ws. isspace c)
              \<and> (rstrip (snd rc) = [] \<or> \<not> isspace (last (rstrip (snd rc))))"
    using rstrip_decomp rstrip_last by blast
  have d: "\<forall>body k. body \<noteq> [] \<and> \<not> isspace (last body) \<longrightarrow>
              section_text rel (body @ replicate k NL)
                = py ''# File: '' @ relative_path_text rel @ [NL, NL] @ body @ [NL]"
    by (simp add: section_text_def rstrip_blank_lines)
  from a c d show ?thesis by blast
qed

theorem build_compilation_format_witness:
  "[ex_one, ex_two] \<noteq> []
   \<and> list_all2 (\<lambda>p rc. relative_to p ex_root = Inr (fst rc) \<and> read_text ex_world p = Inr (snd rc))
        [ex_one, ex_two] [(ex_rel_one, py ''Hello'' @ [NL, NL, NL]), (ex_rel_two, py ''World'')]
   \<and> build_compilation ex_world [ex_one, ex_two] ex_root
        = Inr (py ''# File: docs/10_language/a/one.md'' @ [NL, NL] @ py ''Hello'' @ [NL]
               @ [NL, NL] @ py ''---'' @ [NL, NL]
               @ py ''# File: docs/10_language/b/two.md'' @ [NL, NL] @ py ''World'' @ [NL]
               @ [NL])"
proof -
  have h1: "[ex_one, ex_two] \<noteq> []" by simp
  have h2: "list_all2 (\<lambda>p rc. relative_to p ex_root = Inr (fst rc) \<and> read_text ex_world p = Inr (snd rc))
        [ex_one, ex_two] [(ex_rel_one, py ''Hello'' @ [NL, NL, NL]), (ex_rel_two, py ''World'')]"
    by (simp add: ex_rel_to_root ex_read)
  from build_compilation_format[OF h1 h2]
  have "build_compilation ex_world [ex_one, ex_two] ex_root
        = Inr (py ''# File: docs/10_language/a/one.md'' @ [NL, NL] @ py ''Hello'' @ [NL]
               @ [NL, NL] @ py ''---'' @ [NL, NL]
               @ py ''# File: docs/10_language/b/two.md'' @ [NL, NL] @ py ''World'' @ [NL]
               @ [NL])"
    by (simp add: section_text_def relative_path_text_def rstrip_def isspace_def
        ex_rel_one_def ex_rel_two_def py_def)
  with h1 h2 show ?thesis by blast
qed

text \<open>
  C7. The output of \<open>build_compilation\<close> is determined by the file list, the root and
  what reading each listed file gives: two worlds that agree on these give the same
  result, whatever else differs between them.
\<close>

theorem build_compilation_deterministic:
  "\<forall>p\<in>set md_files. read_text w1 p = read_text w2 p \<Longrightarrow>
   build_compilation w1 md_files repo_root = build_compilation w2 md_files repo_root"
  using build_sections_cong[of md_files w1 w2 repo_root "[]"]
  by (simp add: build_compilation_def)

theorem build_compilation_deterministic_witness:
  "read_text ex_world ex_one = read_text (ex_world\<lparr>cwd := [], stdout := py ''earlier output''\<rparr>) ex_one
   \<and> read_text ex_world ex_two = read_text (ex_world\<lparr>cwd := [], stdout := py ''earlier output''\<rparr>) ex_two
   \<and> build_compilation ex_world [ex_one, ex_two] ex_root
       = build_compilation (ex_world\<lparr>cwd := [], stdout := py ''earlier output''\<rparr>) [ex_one, ex_two] ex_root"
proof -
  have h1: "read_text ex_world ex_one
              = read_text (ex_world\<lparr>cwd := [], stdout := py ''earlier output''\<rparr>) ex_one"
    by (simp add: ex_defs path_defs fs_defs)
  have h2: "read_text ex_world ex_two
              = read_text (ex_world\<lparr>cwd := [], stdout := py ''earlier output''\<rparr>) ex_two"
    by (simp add: ex_defs path_defs fs_defs)
  from h1 h2 have h: "\<forall>p\<in>set [ex_one, ex_two].
      read_text ex_world p = read_text (ex_world\<lparr>cwd := [], stdout := py ''earlier output''\<rparr>) p"
    by simp
  from build_compilation_deterministic[OF h] h1 h2 show ?thesis by blast
qed

text \<open>
  C10. On the empty file list \<open>build_compilation\<close> returns the one-character string
  \<open>\n\<close>, not the empty string; \<open>main\<close> never writes it, since it exits when the
  collector finds no file.
\<close>

theorem build_compilation_empty_list:
  "build_compilation w [] repo_root = Inr [NL]
   \<and> build_compilation w [] repo_root \<noteq> Inr []
   \<and> (parse_args sys_argv w = (Inr args, w)
        \<and> parents1 script = Inr repo_root \<and> exists w (docs_dir_of repo_root)
        \<and> collect_markdown_files w (docs_dir_of repo_root) = Inr []
      \<longrightarrow> snd (main sys_argv script w) = w \<and> (\<exists>msg. fst (main sys_argv script w) = SystemExit msg))"
  by (auto simp: build_compilation_def main_no_files)

theorem build_compilation_empty_list_witness:
  "parse_args ex_argv ex_world_empty = (Inr default_namespace, ex_world_empty)
   \<and> parents1 ex_script = Inr ex_root \<and> exists ex_world_empty (docs_dir_of ex_root)
   \<and> collect_markdown_files ex_world_empty (docs_dir_of ex_root) = Inr []
   \<and> build_compilation ex_world_empty [] ex_root = Inr [NL]
   \<and> snd (main ex_argv ex_script ex_world_empty) = ex_world_empty"
proof -
  have h0: "parse_args ex_argv ex_world_empty = (Inr default_namespace, ex_world_empty)"
    by (rule ex_parse)
  have h1: "parents1 ex_script = Inr ex_root" by (rule ex_parents1)
  have h2: "exists ex_world_empty (docs_dir_of ex_root)" by (rule ex_exists)
  have h3: "collect_markdown_files ex_world_empty (docs_dir_of ex_root) = Inr []"
    by (rule ex_collect_empty)
  from build_compilation_empty_list[of ex_world_empty ex_root ex_argv default_namespace ex_script]
    h0 h1 h2 h3
  show ?thesis by blast
qed

section \<open>Properties of the entry point\<close>

text \<open>
  C4, as the claim states it, fails: \<open>main\<close> parses the command line before it looks
  for the documentation directory. With the help option on the command line and the
  documentation directory missing, the run ends with exit status 0 and the help on
  standard output.
\<close>

theorem main_help_before_directory_check:
  "parents1 ex_script = Inr ex_root
   \<and> \<not> exists ex_world_missing (docs_dir_of ex_root)
   \<and> exit_status (fst (main ex_argv_help ex_script ex_world_missing)) = 0
   \<and> stdout (snd (main ex_argv_help ex_script ex_world_missing)) \<noteq> stdout ex_world_missing
   \<and> stdout (snd (main ex_argv_help ex_script ex_world_missing))
       = py ''usage: compile_language_docs.py [-h] [output]'' @ [NL, NL]
         @ py ''Compile docs/10_language markdown files into a single document.'' @ [NL, NL]
         @ py ''positional arguments:'' @ [NL]
         @ py ''  output      Path of the combined markdown file (default: stdout).'' @ [NL, NL]
         @ py ''options:'' @ [NL]
         @ py ''  -h, --help  show this help message and exit'' @ [NL]"
  using ex_parents1 ex_exists(1)
  by (simp add: main_def ex_parse_help exit_status_def format_help_def ex_world_missing_def py_def)

text \<open>
  C4, amended. When \<open>parse_args\<close> returns a namespace (the command line holds no help
  option and nothing the parser rejects) and the documentation directory is missing,
  or it exists but the collector finds no file in it, \<open>main\<close> ends in \<open>SystemExit\<close>
  with a message (the first names the missing path), the exit status is not zero, and
  the world is the one it started from: nothing is written to standard output and no
  file is touched. When \<open>parse_args\<close> ends the run itself, \<open>main\<close> ends as
  \<open>parse_args\<close> did, whatever the state of the documentation directory.
\<close>

theorem main_early_exit:
  assumes "parents1 script = Inr repo_root"
  shows "(parse_args sys_argv w = (Inr args, w) \<and> \<not> exists w (docs_dir_of repo_root) \<longrightarrow>
            main sys_argv script w =
              (SystemExit (py ''Missing docs directory: '' @ path_str (docs_dir_of repo_root)), w))
       \<and> (parse_args sys_argv w = (Inr args, w) \<and> exists w (docs_dir_of repo_root)
            \<and> collect_markdown_files w (docs_dir_of repo_root) = Inr [] \<longrightarrow>
            main sys_argv script w =
              (SystemExit (py ''No markdown files found under '' @ path_str (docs_dir_of repo_root)), w))
       \<and> (\<forall>msg. exit_status (SystemExit msg) \<noteq> 0)
       \<and> (\<forall>ended w'. parse_args sys_argv w = (Inl ended, w') \<longrightarrow>
            main sys_argv script w = (ended, w'))"
  using assms by (simp add: main_def Let_def exit_status_def)

theorem main_early_exit_witness:
  "parents1 ex_script = Inr ex_root
   \<and> parse_args ex_argv_out ex_world_missing = (Inr \<lparr>output_arg = py ''out.md''\<rparr>, ex_world_missing)
   \<and> \<not> exists ex_world_missing (docs_dir_of ex_root)
   \<and> main ex_argv_out ex_script ex_world_missing =
       (SystemExit (py ''Missing docs directory: /r/docs/10_language''), ex_world_missing)
   \<and> parse_args ex_argv_out ex_world_empty = (Inr \<lparr>output_arg = py ''out.md''\<rparr>, ex_world_empty)
   \<and> exists ex_world_empty (docs_dir_of ex_root)
   \<and> collect_markdown_files ex_world_empty (docs_dir_of ex_root) = Inr []
   \<and> main ex_argv_out ex_script ex_world_empty =
       (SystemExit (py ''No markdown files found under /r/docs/10_language''), ex_world_empty)
   \<and> parse_args ex_argv_help ex_world_missing =
       (Inl (SystemExitStatus 0),
        ex_world_missing\<lparr>stdout := stdout ex_world_missing @ format_help (py ''compile_language_docs.py'')\<rparr>)
   \<and> main ex_argv_help ex_script ex_world_missing =
       (SystemExitStatus 0,
        ex_world_missing\<lparr>stdout := stdout ex_world_missing @ format_help (py ''compile_language_docs.py'')\<rparr>)"
proof -
  have h1: "parents1 ex_script = Inr ex_root" by (rule ex_parents1)
  have p3: "parse_args ex_argv_help ex_world_missing =
       (Inl (SystemExitStatus 0),
        ex_world_missing\<lparr>stdout := stdout ex_world_missing @ format_help (py ''compile_language_docs.py'')\<rparr>)"
    by (rule ex_parse_help)
  have p1: "parse_args ex_argv_out ex_world_missing
              = (Inr \<lparr>output_arg = py ''out.md''\<rparr>, ex_world_missing)"
    by (rule ex_parse)
  have p2: "parse_args ex_argv_out ex_world_empty
              = (Inr \<lparr>output_arg = py ''out.md''\<rparr>, ex_world_empty)"
    by (rule ex_parse)
  have h2: "\<not> exists ex_world_missing (docs_dir_of ex_root)" by (rule ex_exists)
  have h3: "exists ex_world_empty (docs_dir_of ex_root)" by (rule ex_exists)
  have h4: "collect_markdown_files ex_world_empty (docs_dir_of ex_root) = Inr []"
    by (rule ex_collect_empty)
  have s1: "py ''Missing docs directory: '' @ path_str (docs_dir_of ex_root)
              = py ''Missing docs directory: /r/docs/10_language''"
    by (simp add: ex_defs path_defs)
  have s2: "py ''No markdown files found under '' @ path_str (docs_dir_of ex_root)
              = py ''No markdown files found under /r/docs/10_language''"
    by (simp add: ex_defs path_defs)
  from main_early_exit[OF h1, of ex_argv_out ex_world_missing "\<lparr>output_arg = py ''out.md''\<rparr>"]
    p1 h2 s1
  have a: "main ex_argv_out ex_script ex_world_missing =
       (SystemExit (py ''Missing docs directory: /r/docs/10_language''), ex_world_missing)"
    by simp
  from main_early_exit[OF h1, of ex_argv_out ex_world_empty "\<lparr>output_arg = py ''out.md''\<rparr>"]
    p2 h3 h4 s2
  have b: "main ex_argv_out ex_script ex_world_empty =
       (SystemExit (py ''No markdown files found under /r/docs/10_language''), ex_world_empty)"
    by simp
  from main_early_exit[OF h1, of ex_argv_help ex_world_missing] p3
  have c: "main ex_argv_help ex_script ex_world_missing =
       (SystemExitStatus 0,
        ex_world_missing\<lparr>stdout := stdout ex_world_missing @ format_help (py ''compile_language_docs.py'')\<rparr>)"
    by blast
  from h1 p1 p2 p3 h2 h3 h4 a b c show ?thesis by blast
qed

section \<open>Paths outside the root\<close>

text \<open>
  C9, as the claim states it, fails: a list that holds a path outside the root need not
  end in \<open>ValueError\<close>. Here the first path lies beneath the root but does not exist,
  the second lies outside the root, and the call ends in \<open>FileNotFoundError\<close>.
\<close>

theorem build_compilation_not_always_ValueError:
  "relative_to ex_outside ex_root = Inl ValueError
   \<and> build_compilation ex_world [ex_missing, ex_outside] ex_root = Inl FileNotFoundError"
  by (simp add: build_compilation_def Let_def ex_defs path_defs fs_defs)

text \<open>
  C9, amended. A list that holds a path outside the root gives no output string: the
  call ends in an exception. The exception is \<open>ValueError\<close> when every path before the
  first one outside the root lies beneath the root and is readable. When every path lies
  beneath the root and is readable, no exception is raised.
\<close>

theorem build_compilation_outside_root:
  "((\<exists>p\<in>set md_files. relative_to p repo_root = Inl ValueError) \<longrightarrow>
      (\<exists>e. build_compilation w md_files repo_root = Inl e))
   \<and> ((\<forall>q\<in>set pre. (\<exists>rel. relative_to q repo_root = Inr rel) \<and> (\<exists>c. read_text w q = Inr c))
        \<and> relative_to p repo_root = Inl ValueError \<longrightarrow>
      build_compilation w (pre @ p # post) repo_root = Inl ValueError)
   \<and> ((\<forall>q\<in>set md_files. (\<exists>rel. relative_to q repo_root = Inr rel) \<and> (\<exists>c. read_text w q = Inr c)) \<longrightarrow>
      (\<exists>out. build_compilation w md_files repo_root = Inr out))"
proof (intro conjI impI)
  assume "\<exists>p\<in>set md_files. relative_to p repo_root = Inl ValueError"
  from build_sections_fail[OF this, of w "[]"]
  show "\<exists>e. build_compilation w md_files repo_root = Inl e"
    by (auto simp: build_compilation_def)
next
  assume a: "(\<forall>q\<in>set pre. (\<exists>rel. relative_to q repo_root = Inr rel) \<and> (\<exists>c. read_text w q = Inr c))
        \<and> relative_to p repo_root = Inl ValueError"
  then obtain ss where "build_sections w pre repo_root [] = Inr ss"
    using build_sections_total[of pre repo_root w "[]"] by blast
  with a show "build_compilation w (pre @ p # post) repo_root = Inl ValueError"
    by (simp add: build_compilation_def build_sections_append)
next
  assume "\<forall>q\<in>set md_files. (\<exists>rel. relative_to q repo_root = Inr rel) \<and> (\<exists>c. read_text w q = Inr c)"
  from build_sections_total[OF this, of "[]"]
  show "\<exists>out. build_compilation w md_files repo_root = Inr out"
    by (auto simp: build_compilation_def)
qed

theorem build_compilation_outside_root_witness:
  "relative_to ex_outside ex_root = Inl ValueError
   \<and> relative_to ex_one ex_root = Inr ex_rel_one
   \<and> read_text ex_world ex_one = Inr (py ''Hello'' @ [NL, NL, NL])
   \<and> relative_to ex_two ex_root = Inr ex_rel_two
   \<and> read_text ex_world ex_two = Inr (py ''World'')
   \<and> build_compilation ex_world ([ex_one] @ ex_outside # [ex_two]) ex_root = Inl ValueError
   \<and> (\<exists>out. build_compilation ex_world [ex_one, ex_two] ex_root = Inr out)"
proof -
  have h0: "relative_to ex_outside ex_root = Inl ValueError" by (rule ex_rel_to_root)
  have h1: "relative_to ex_one ex_root = Inr ex_rel_one" by (rule ex_rel_to_root)
  have h2: "read_text ex_world ex_one = Inr (py ''Hello'' @ [NL, NL, NL])" by (rule ex_read)
  have h3: "relative_to ex_two ex_root = Inr ex_rel_two" by (rule ex_rel_to_root)
  have h4: "read_text ex_world ex_two = Inr (py ''World'')" by (rule ex_read)
  from h1 h2 have p1: "\<forall>q\<in>set [ex_one].
      (\<exists>rel. relative_to q ex_root = Inr rel) \<and> (\<exists>c. read_text ex_world q = Inr c)"
    by simp
  from h1 h2 h3 h4 have p2: "\<forall>q\<in>set [ex_one, ex_two].
      (\<exists>rel. relative_to q ex_root = Inr rel) \<and> (\<exists>c. read_text ex_world q = Inr c)"
    by simp
  from build_compilation_outside_root[of "[ex_one, ex_two]" ex_root ex_world "[ex_one]" ex_outside "[ex_two]"]
    p1 p2 h0
  have "build_compilation ex_world ([ex_one] @ ex_outside # [ex_two]) ex_root = Inl ValueError
        \<and> (\<exists>out. build_compilation ex_world [ex_one, ex_two] ex_root = Inr out)"
    by blast
  with h0 h1 h2 h3 h4 show ?thesis by blast
qed

section \<open>The concrete scenario\<close>

text \<open>
  C3, as the claim states it, fails. With \<open>a/one.md\<close> holding \<open>Hello\n\n\n\<close> and
  \<open>b/two.md\<close> holding \<open>World\<close> under the documentation root, neither what \<open>main\<close>
  writes nor what \<open>build_compilation\<close> returns with the documentation root as its
  reference root is the string of the claim.
\<close>

theorem scenario_output_differs:
  "stdout (snd (main ex_argv ex_script ex_world))
     \<noteq> py ''# File: a/one.md'' @ [NL, NL] @ py ''Hello'' @ [NL, NL] @ py ''---'' @ [NL, NL]
        @ py ''# File: b/two.md'' @ [NL, NL] @ py ''World'' @ [NL] @ [NL]
   \<and> build_compilation ex_world [ex_one, ex_two] ex_docs
     \<noteq> Inr (py ''# File: a/one.md'' @ [NL, NL] @ py ''Hello'' @ [NL, NL] @ py ''---'' @ [NL, NL]
        @ py ''# File: b/two.md'' @ [NL, NL] @ py ''World'' @ [NL] @ [NL])"
  by (simp add: ex_main ex_compiled_docs) (simp add: py_def)

text \<open>
  C3, amended. In that scenario \<open>main\<close> writes the two sections with headings that show
  the paths relative to the repository root, \<open>docs/10_language/a/one.md\<close> and
  \<open>docs/10_language/b/two.md\<close>, and with three newlines between \<open>Hello\<close> and the
  rule: the one that ends the section and the two that begin the separator. The stream
  ends with the newline of the last section and the final newline. With the
  documentation root as its reference root, \<open>build_compilation\<close> returns the same with
  the headings \<open>a/one.md\<close> and \<open>b/two.md\<close>.
\<close>

theorem scenario_output:
  "main ex_argv ex_script ex_world =
     (Returned,
      ex_world\<lparr>stdout :=
        py ''# File: docs/10_language/a/one.md'' @ [NL, NL] @ py ''Hello'' @ [NL, NL, NL]
        @ py ''---'' @ [NL, NL]
        @ py ''# File: docs/10_language/b/two.md'' @ [NL, NL] @ py ''World'' @ [NL] @ [NL]\<rparr>)
   \<and> build_compilation ex_world [ex_one, ex_two] ex_docs =
       Inr (py ''# File: a/one.md'' @ [NL, NL] @ py ''Hello'' @ [NL, NL, NL]
            @ py ''---'' @ [NL, NL]
            @ py ''# File: b/two.md'' @ [NL, NL] @ py ''World'' @ [NL] @ [NL])"
  using ex_main ex_compiled_docs by simp

section \<open>Properties of the writer\<close>

lemma is_Dir_simps [simp]:
  "is_Dir None = False" "is_Dir (Some (Dir es)) = True" "is_Dir (Some (File c)) = False"
  by (simp_all add: is_Dir_def)

lemma is_File_simps [simp]:
  "is_File None = False" "is_File (Some (Dir es)) = False" "is_File (Some (File c)) = True"
  by (simp_all add: is_File_def)






























lemma ex_read_written:
  "read_text ex_written ex_dest = Inr (py ''new'')"
  "read_text ex_overwritten ex_two = Inr (py ''new'')"
  by (simp_all add: ex_dest_def ex_written_def ex_overwritten_def ex_defs path_defs fs_defs)






end
